theory Spec2Isabelle
  imports Main
begin

section \<open>Data model\<close>

text \<open>
  The repository is an adapter over a remote assistant service (implementations/openai_provider.py),
  a provider facade (processor_2.py) and a small registry example (test_lib.py).
  The objects of the remote service are records; Python exceptions are values of the
  datatype \<open>exn\<close>, and an operation that may raise returns \<open>exn + 'a\<close> (\<open>Inl\<close> the
  exception).
\<close>

datatype exn =
    APIError string
      \<comment> \<open>any exception raised by a call of the service client\<close>
  | NoAssistantMessage
      \<comment> \<open>\<^verbatim>\<open>Exception("No assistant message found, retrying...")\<close>\<close>
  | OperationFailed int exn
      \<comment> \<open>\<^verbatim>\<open>Exception(f"Operation failed after {max_retries} retries") from e\<close>\<close>
  | RuntimeError string
  | AttributeError string
  | KeyError string
  | TypeError string

record message =
  role :: string
  content :: string

record tool_call =
  tc_id :: string
  function_name :: string
  arguments :: string

record tool_output =
  tool_call_id :: string
  output_str :: string

record run =
  run_id :: string
  status :: string
  required_action :: "tool_call list option"
    \<comment> \<open>\<^verbatim>\<open>run.required_action.submit_tool_outputs.tool_calls\<close>; \<open>None\<close> when
        \<^verbatim>\<open>required_action\<close> is \<^verbatim>\<open>None\<close>\<close>

record thread =
  thread_ident :: string

text \<open>
  The answers of the remote service are parameters of the model. Calls that are repeated
  in a loop (\<^verbatim>\<open>runs.retrieve\<close>, \<^verbatim>\<open>messages.list\<close>) are answered by call number, so
  that every sequence of answers can be stated.
\<close>

record client =
  runs_create :: "string \<Rightarrow> string \<Rightarrow> exn + run"
    \<comment> \<open>thread id, assistant id\<close>
  runs_retrieve :: "nat \<Rightarrow> exn + run"
    \<comment> \<open>the answer to the k-th call of \<^verbatim>\<open>runs.retrieve\<close>, k from 0\<close>
  runs_submit_tool_outputs :: "string \<Rightarrow> string \<Rightarrow> tool_output list \<Rightarrow> exn + run"
    \<comment> \<open>thread id, run id, outputs\<close>
  messages_create :: "string \<Rightarrow> string \<Rightarrow> string \<Rightarrow> exn + message"
    \<comment> \<open>thread id, role, content\<close>
  messages_list :: "string \<Rightarrow> nat \<Rightarrow> exn + message list"
    \<comment> \<open>thread id; the answer to the k-th call of \<^verbatim>\<open>messages.list\<close>, k from 0\<close>

record config =
  provider :: string
  model :: string
  function_registry :: "(string \<rightharpoonup> string \<Rightarrow> string) option"
  api_key :: string
  assistant_id :: "string option"

text \<open>
  \<^verbatim>\<open>OpenAIAssistantImpl.__init__\<close> keeps the client and the assistant id, and nothing else
  of the configuration.
\<close>

record OpenAIAssistantImpl =
  self_client :: client
  self_assistant_id :: "string option"

definition OpenAIAssistantImpl_init :: "(string \<Rightarrow> client) \<Rightarrow> config \<Rightarrow> OpenAIAssistantImpl" where
  "OpenAIAssistantImpl_init create_client cfg =
     \<lparr>self_client = create_client (api_key cfg), self_assistant_id = assistant_id cfg\<rparr>"

section \<open>Listing messages\<close>

text \<open>
  \<^verbatim>\<open>get_thread_messages\<close>: the list when it is not empty, \<^verbatim>\<open>None\<close> when it is empty or
  when the call raised.
\<close>

definition get_thread_messages :: "OpenAIAssistantImpl \<Rightarrow> string \<Rightarrow> nat \<Rightarrow> message list option" where
  "get_thread_messages self thread_id k =
     (case messages_list (self_client self) thread_id k of
        Inl e \<Rightarrow> None
      | Inr msgs \<Rightarrow> (if msgs \<noteq> [] then Some msgs else None))"

text \<open>
  The generator expression under \<^verbatim>\<open>next(..., None)\<close>: the first message of the list
  whose role is \<^verbatim>\<open>"assistant"\<close>.
\<close>

fun next_assistant :: "message list \<Rightarrow> message option" where
  "next_assistant [] = None"
| "next_assistant (msg # msgs) =
     (if role msg = ''assistant'' then Some msg else next_assistant msgs)"

text \<open>
  \<^verbatim>\<open>_try_get_latest_assistant_message\<close>, given the answer of \<^verbatim>\<open>messages.list\<close>. An
  exception of the listing call propagates; a message object is always truthy.
\<close>

definition try_get_latest_assistant_message :: "exn + message list \<Rightarrow> exn + message" where
  "try_get_latest_assistant_message listing =
     (case listing of
        Inl e \<Rightarrow> Inl e
      | Inr msgs \<Rightarrow>
          (if msgs \<noteq> [] then
             (case next_assistant msgs of
                Some assistant_message \<Rightarrow> Inr assistant_message
              | None \<Rightarrow> Inl NoAssistantMessage)
           else Inl NoAssistantMessage))"

section \<open>The retry manager\<close>

text \<open>
  \<^verbatim>\<open>retry_manager\<close> is an asynchronous generator under \<^verbatim>\<open>@asynccontextmanager\<close>. The
  generator is modelled by its resumption points, with the local variable \<^verbatim>\<open>retries\<close>
  as an argument; a resumption ends at the next \<^verbatim>\<open>yield\<close>, at the end of the body or
  at a \<^verbatim>\<open>raise\<close>.
\<close>

datatype gen_step = Yield int | StopAsyncIteration | Raise exn

text \<open>The head of \<^verbatim>\<open>while retries < max_retries\<close>, followed by \<^verbatim>\<open>yield retries\<close>.\<close>

definition retry_manager_loop :: "int \<Rightarrow> int \<Rightarrow> gen_step" where
  "retry_manager_loop max_retries retries =
     (if retries < max_retries then Yield retries else StopAsyncIteration)"

text \<open>The first resumption: \<^verbatim>\<open>retries = 0\<close>, then the loop.\<close>

definition retry_manager_start :: "int \<Rightarrow> gen_step" where
  "retry_manager_start max_retries = retry_manager_loop max_retries 0"

text \<open>A resumption at the \<^verbatim>\<open>yield\<close> without an exception: the \<^verbatim>\<open>return\<close> after it.\<close>

definition retry_manager_resume :: "gen_step" where
  "retry_manager_resume = StopAsyncIteration"

text \<open>
  An exception thrown in at the \<^verbatim>\<open>yield\<close>: every value of \<open>exn\<close> is an
  \<^verbatim>\<open>Exception\<close>, so the handler runs; below the bound it goes round the loop, which
  yields again.
\<close>

definition retry_manager_athrow :: "int \<Rightarrow> int \<Rightarrow> exn \<Rightarrow> gen_step" where
  "retry_manager_athrow max_retries retries e =
     (let retries' = retries + 1 in
      if retries' < max_retries then retry_manager_loop max_retries retries'
      else Raise (OperationFailed max_retries e))"

text \<open>
  The protocol of contextlib's asynchronous context manager around a generator:
  \<^verbatim>\<open>__aenter__\<close> needs a first yield; \<^verbatim>\<open>__aexit__\<close> resumes the generator once more
  (throwing the exception of the body in, when there is one) and requires it to stop. The
  result of an exit is the exception that leaves the \<^verbatim>\<open>async with\<close> statement, if any.
\<close>

definition aenter :: "gen_step \<Rightarrow> exn + int" where
  "aenter first =
     (case first of
        Yield v \<Rightarrow> Inr v
      | StopAsyncIteration \<Rightarrow> Inl (RuntimeError ''generator didn't yield'')
      | Raise e \<Rightarrow> Inl e)"

definition aexit_normal :: "gen_step \<Rightarrow> exn option" where
  "aexit_normal resumed =
     (case resumed of
        StopAsyncIteration \<Rightarrow> None
      | Yield v \<Rightarrow> Some (RuntimeError ''generator didn't stop'')
      | Raise e \<Rightarrow> Some e)"

definition aexit_exception :: "gen_step \<Rightarrow> exn option" where
  "aexit_exception thrown =
     (case thrown of
        StopAsyncIteration \<Rightarrow> None
      | Yield v \<Rightarrow> Some (RuntimeError ''generator didn't stop after athrow()'')
      | Raise e \<Rightarrow> Some e)"

text \<open>
  \<^verbatim>\<open>async with retry_manager(max_retries=max_retries): return body\<close>. The body takes the
  number of listing calls made so far and returns it updated. \<open>Inr None\<close> is the case
  of a suppressed exception, where control falls out of the statement.
\<close>

definition async_with_retry_manager ::
  "int \<Rightarrow> (nat \<Rightarrow> (exn + 'a) \<times> nat) \<Rightarrow> nat \<Rightarrow> (exn + 'a option) \<times> nat" where
  "async_with_retry_manager max_retries body k =
     (case aenter (retry_manager_start max_retries) of
        Inl e \<Rightarrow> (Inl e, k)
      | Inr retries \<Rightarrow>
          (case body k of
             (Inr v, k') \<Rightarrow>
               (case aexit_normal retry_manager_resume of
                  None \<Rightarrow> (Inr (Some v), k')
                | Some e \<Rightarrow> (Inl e, k'))
           | (Inl e, k') \<Rightarrow>
               (case aexit_exception (retry_manager_athrow max_retries retries e) of
                  None \<Rightarrow> (Inr None, k')
                | Some e' \<Rightarrow> (Inl e', k'))))"

text \<open>One call of \<^verbatim>\<open>_try_get_latest_assistant_message\<close>: the k-th listing call.\<close>

definition try_get_call :: "OpenAIAssistantImpl \<Rightarrow> string \<Rightarrow> nat \<Rightarrow> (exn + message) \<times> nat" where
  "try_get_call self thread_id k =
     (try_get_latest_assistant_message (messages_list (self_client self) thread_id k), Suc k)"

text \<open>
  \<^verbatim>\<open>get_assistant_response\<close>: the value returned, and the number of listing calls made
  (counted from 0). Every exception that leaves the statement is printed and turned into
  \<^verbatim>\<open>None\<close>.
\<close>

definition get_assistant_response ::
  "OpenAIAssistantImpl \<Rightarrow> string \<Rightarrow> int \<Rightarrow> message option \<times> nat" where
  "get_assistant_response self thread_id max_retries =
     (case async_with_retry_manager max_retries (try_get_call self thread_id) 0 of
        (Inr r, calls) \<Rightarrow> (r, calls)
      | (Inl e, calls) \<Rightarrow> (None, calls))"

section \<open>Tool calls\<close>

text \<open>
  Python values where the source does not keep to its annotations: the \<^verbatim>\<open>thread\<close>
  argument of \<^verbatim>\<open>submit_tool_outputs\<close> is a thread object or, as \<^verbatim>\<open>start_run\<close> passes
  it, a string; \<^verbatim>\<open>execute_function_call\<close> returns a Python value that is turned into
  text by \<^verbatim>\<open>str\<close>.
\<close>

datatype pyobj = ThreadObj thread | StrObj string

datatype pyval = PyNone | PyStr string

fun py_str :: "pyval \<Rightarrow> string" where
  "py_str PyNone = ''None''"
| "py_str (PyStr s) = s"

text \<open>The attribute \<^verbatim>\<open>.id\<close>: a string has none.\<close>

fun getattr_id :: "pyobj \<Rightarrow> exn + string" where
  "getattr_id (ThreadObj t) = Inr (thread_ident t)"
| "getattr_id (StrObj s) = Inl (AttributeError ''str object has no attribute id'')"

text \<open>The body of \<^verbatim>\<open>OpenAIAssistantImpl.execute_function_call\<close> is \<^verbatim>\<open>pass\<close>.\<close>

definition execute_function_call ::
  "OpenAIAssistantImpl \<Rightarrow> pyobj \<Rightarrow> string \<Rightarrow> string \<Rightarrow> pyval" where
  "execute_function_call self thread fname args = PyNone"

text \<open>The \<^verbatim>\<open>for\<close> loop of \<^verbatim>\<open>submit_tool_outputs\<close>, appending to \<^verbatim>\<open>tool_outputs\<close>.\<close>

fun tool_outputs_loop ::
  "OpenAIAssistantImpl \<Rightarrow> pyobj \<Rightarrow> tool_call list \<Rightarrow> tool_output list \<Rightarrow> tool_output list" where
  "tool_outputs_loop self thread [] tool_outputs = tool_outputs"
| "tool_outputs_loop self thread (tool_call # rest) tool_outputs =
     (let function_response =
            execute_function_call self thread (function_name tool_call) (arguments tool_call)
      in tool_outputs_loop self thread rest
           (tool_outputs @
              [\<lparr>tool_call_id = tc_id tool_call, output_str = py_str function_response\<rparr>]))"

text \<open>
  \<^verbatim>\<open>submit_tool_outputs\<close>: its result, and the batches handed to the service's
  \<^verbatim>\<open>submit_tool_outputs\<close> call (none when \<^verbatim>\<open>thread.id\<close> raises, as the arguments are
  evaluated before the call).
\<close>

definition submit_tool_outputs ::
  "OpenAIAssistantImpl \<Rightarrow> run \<Rightarrow> pyobj \<Rightarrow> tool_call list \<Rightarrow> (exn + run) \<times> tool_output list list" where
  "submit_tool_outputs self run thread tool_calls =
     (let tool_outputs = tool_outputs_loop self thread tool_calls [] in
      case getattr_id thread of
        Inl e \<Rightarrow> (Inl e, [])
      | Inr tid \<Rightarrow>
          (runs_submit_tool_outputs (self_client self) tid (run_id run) tool_outputs,
           [tool_outputs]))"

section \<open>Polling a run\<close>

text \<open>\<^verbatim>\<open>run.required_action.submit_tool_outputs.tool_calls\<close>.\<close>

definition pending_tool_calls :: "run \<Rightarrow> exn + tool_call list" where
  "pending_tool_calls run =
     (case required_action run of
        None \<Rightarrow> Inl (AttributeError ''NoneType object has no attribute submit_tool_outputs'')
      | Some tool_calls \<Rightarrow> Inr tool_calls)"

text \<open>
  The \<^verbatim>\<open>while\<close> loop of \<^verbatim>\<open>start_run\<close> may run forever: the outer \<open>option\<close> is
  \<open>None\<close> when it does. A result \<open>Some (r, sent)\<close> is the value \<^verbatim>\<open>start_run\<close>
  returns (\<open>r = None\<close> from the exception handler) and the batches handed to the
  service so far. \<open>k\<close> counts the calls of \<^verbatim>\<open>runs.retrieve\<close>.
\<close>

partial_function (option) poll ::
  "OpenAIAssistantImpl \<Rightarrow> string \<Rightarrow> nat \<Rightarrow> tool_output list list \<Rightarrow> run \<Rightarrow>
     (run option \<times> tool_output list list) option" where
  "poll self thread_id k sent run =
     (if status run = ''completed'' then Some (Some run, sent)
      else
        (case runs_retrieve (self_client self) k of
           Inl e \<Rightarrow> Some (None, sent)
         | Inr run' \<Rightarrow>
             (if status run' = ''requires_action'' then
                (case pending_tool_calls run' of
                   Inl e \<Rightarrow> Some (None, sent)
                 | Inr tool_calls \<Rightarrow>
                     (case submit_tool_outputs self run' (StrObj thread_id) tool_calls of
                        (Inl e, batches) \<Rightarrow> Some (None, sent @ batches)
                      | (Inr submitted, batches) \<Rightarrow>
                          poll self thread_id (Suc k) (sent @ batches) run'))
              else poll self thread_id (Suc k) sent run')))"

definition start_run ::
  "OpenAIAssistantImpl \<Rightarrow> string \<Rightarrow> string \<Rightarrow> (run option \<times> tool_output list list) option" where
  "start_run self thread_id assistant =
     (case runs_create (self_client self) thread_id assistant of
        Inl e \<Rightarrow> Some (None, [])
      | Inr run \<Rightarrow> poll self thread_id 0 [] run)"

text \<open>
  \<^verbatim>\<open>create_message\<close>: \<open>None\<close> when the call does not return, otherwise the value
  returned. The result of \<^verbatim>\<open>start_run\<close> is not bound to anything.
\<close>

definition create_message ::
  "OpenAIAssistantImpl \<Rightarrow> string \<Rightarrow> string \<Rightarrow> string \<Rightarrow> message option option" where
  "create_message self thread_id assistant text =
     (case messages_create (self_client self) thread_id ''user'' text of
        Inl e \<Rightarrow> Some None
      | Inr message \<Rightarrow>
          (case start_run self thread_id assistant of
             None \<Rightarrow> None
           | Some r \<Rightarrow> Some (Some message)))"

section \<open>The provider facade (processor_2.py)\<close>

definition OPENAI :: string where
  "OPENAI = ''openai''"

text \<open>
  The registry maps a provider name to a class, that is, to its constructor. The
  constructor of the service client (\<^verbatim>\<open>AsyncOpenAI\<close>) is a parameter.
\<close>

definition processor_implementations ::
  "(string \<Rightarrow> client) \<Rightarrow> string \<rightharpoonup> (config \<Rightarrow> OpenAIAssistantImpl)" where
  "processor_implementations create_client = [OPENAI \<mapsto> OpenAIAssistantImpl_init create_client]"

definition get_assistant_processor ::
  "(string \<Rightarrow> client) \<Rightarrow> config \<Rightarrow> exn + OpenAIAssistantImpl" where
  "get_assistant_processor create_client cfg =
     (if provider cfg \<notin> dom (processor_implementations create_client) then
        Inl (KeyError (''AssistanProcessor for Provider: '' @ provider cfg @ '' is not implemented.''))
      else
        (case processor_implementations create_client (provider cfg) of
           None \<Rightarrow> Inl (KeyError (provider cfg))
         | Some cls \<Rightarrow> Inr (cls cfg)))"

record AssistantProcessor =
  processor :: OpenAIAssistantImpl

text \<open>\<^verbatim>\<open>AssistantProcessor.__init__\<close> of processor_2.py has no handler of its own.\<close>

definition AssistantProcessor_init ::
  "(string \<Rightarrow> client) \<Rightarrow> config \<Rightarrow> exn + AssistantProcessor" where
  "AssistantProcessor_init create_client cfg =
     (case get_assistant_processor create_client cfg of
        Inl e \<Rightarrow> Inl e
      | Inr impl \<Rightarrow> Inr \<lparr>processor = impl\<rparr>)"

section \<open>The registry of test_lib.py\<close>

text \<open>
  The classes that can stand in the registry: the default one, and classes supplied by
  callers. A supplied class is given by its name and by the exception that calling it with
  no arguments raises, if any (\<^verbatim>\<open>TypeError\<close> for an abstract class, or for one whose
  \<^verbatim>\<open>__init__\<close> has required parameters). \<^verbatim>\<open>assistant_processor_implementations\<close> is one
  dictionary, shared by the module and by the class attribute of \<^verbatim>\<open>AssistantProcessor\<close>:
  its content is passed in and returned.
\<close>

datatype impl_class = AssistantTestImpl | CustomImpl string "exn option"

text \<open>The call \<^verbatim>\<open>cls()\<close>: the exception it raises, or \<open>None\<close> when it returns an instance.\<close>

fun call_raises :: "impl_class \<Rightarrow> exn option" where
  "call_raises AssistantTestImpl = None"
| "call_raises (CustomImpl name raised) = raised"

definition assistant_processor_implementations :: "string \<rightharpoonup> impl_class" where
  "assistant_processor_implementations = [''openai'' \<mapsto> AssistantTestImpl]"

record TestProcessor =
  instance_of :: impl_class
  model_name :: string

text \<open>
  \<^verbatim>\<open>AssistantProcessor.__init__\<close> of test_lib.py: \<^verbatim>\<open>update\<close> writes the custom entries
  into the shared dictionary, then the provider is looked up in it and the class found is
  called. The result is the new object or the exception (of the lookup or of the call), and
  the dictionary as the call leaves it.
\<close>

definition TestProcessor_init ::
  "(string \<rightharpoonup> impl_class) \<Rightarrow> string \<Rightarrow> string \<Rightarrow> (string \<rightharpoonup> impl_class) option \<Rightarrow>
     (exn + TestProcessor) \<times> (string \<rightharpoonup> impl_class)" where
  "TestProcessor_init registry prov mdl custom_processors =
     (let registry' =
            registry ++ (case custom_processors of None \<Rightarrow> Map.empty | Some custom \<Rightarrow> custom)
      in (case registry' prov of
            None \<Rightarrow> Inl (KeyError prov)
          | Some cls \<Rightarrow>
              (case call_raises cls of
                 Some e \<Rightarrow> Inl e
               | None \<Rightarrow> Inr \<lparr>instance_of = cls, model_name = mdl\<rparr>),
          registry'))"

section \<open>Scenarios\<close>

text \<open>Concrete services and inputs, used where a property is evaluated.\<close>

definition run_with_status :: "string \<Rightarrow> run" where
  "run_with_status s = \<lparr>run_id = ''run_1'', status = s, required_action = None\<rparr>"

definition missing_fn_call :: tool_call where
  "missing_fn_call = \<lparr>tc_id = ''call_1'', function_name = ''missing_fn'', arguments = ''{}''\<rparr>"

definition run_requiring_action :: run where
  "run_requiring_action =
     \<lparr>run_id = ''run_1'', status = ''requires_action'', required_action = Some [missing_fn_call]\<rparr>"

text \<open>
  After \<^verbatim>\<open>queued\<close> from the creation of the run, the fetched statuses are
  \<^verbatim>\<open>in_progress\<close>, \<^verbatim>\<open>requires_action\<close> (one tool call), \<^verbatim>\<open>in_progress\<close>, \<^verbatim>\<open>completed\<close>.
\<close>

fun scenario_retrieve :: "nat \<Rightarrow> exn + run" where
  "scenario_retrieve 0 = Inr (run_with_status ''in_progress'')"
| "scenario_retrieve (Suc 0) = Inr run_requiring_action"
| "scenario_retrieve (Suc (Suc 0)) = Inr (run_with_status ''in_progress'')"
| "scenario_retrieve (Suc (Suc (Suc n))) = Inr (run_with_status ''completed'')"

definition user_message :: message where
  "user_message = \<lparr>role = ''user'', content = ''hello''\<rparr>"

definition assistant_message :: message where
  "assistant_message = \<lparr>role = ''assistant'', content = ''hi''\<rparr>"

definition scenario_client :: client where
  "scenario_client =
     \<lparr>runs_create = (\<lambda>t a. Inr (run_with_status ''queued'')),
      runs_retrieve = scenario_retrieve,
      runs_submit_tool_outputs = (\<lambda>t r outs. Inr (run_with_status ''in_progress'')),
      messages_create = (\<lambda>t r c. Inr \<lparr>role = r, content = c\<rparr>),
      messages_list = (\<lambda>t k. Inr [user_message])\<rparr>"

definition impl_of :: "client \<Rightarrow> OpenAIAssistantImpl" where
  "impl_of c = \<lparr>self_client = c, self_assistant_id = Some ''asst_1''\<rparr>"

text \<open>A run that stays in \<^verbatim>\<open>failed\<close>.\<close>

definition failed_client :: client where
  "failed_client = scenario_client\<lparr>runs_retrieve := (\<lambda>k. Inr (run_with_status ''failed''))\<rparr>"

text \<open>A run that stays in \<^verbatim>\<open>requires_action\<close>, and a service whose fetch raises.\<close>

definition waiting_client :: client where
  "waiting_client = scenario_client\<lparr>runs_retrieve := (\<lambda>k. Inr run_requiring_action)\<rparr>"

definition unreachable_client :: client where
  "unreachable_client = scenario_client\<lparr>runs_retrieve := (\<lambda>k. Inl (APIError ''connection reset''))\<rparr>"

text \<open>A service whose third fetch raises, after two that answer \<^verbatim>\<open>in_progress\<close>.\<close>

definition dropping_client :: client where
  "dropping_client =
     scenario_client\<lparr>runs_retrieve :=
       (\<lambda>k. if k < 2 then Inr (run_with_status ''in_progress'')
            else Inl (APIError ''connection reset''))\<rparr>"

text \<open>A service that cannot create a run.\<close>

definition no_run_client :: client where
  "no_run_client = scenario_client\<lparr>runs_create := (\<lambda>t a. Inl (APIError ''no such assistant''))\<rparr>"

text \<open>A thread whose first two listings have no assistant message, and the third has.\<close>

definition late_answer_client :: client where
  "late_answer_client =
     scenario_client\<lparr>messages_list :=
       (\<lambda>t k. if k < 2 then Inr [user_message] else Inr [assistant_message, user_message])\<rparr>"

text \<open>A thread with no message, and a service whose listing raises.\<close>

definition empty_thread_client :: client where
  "empty_thread_client = scenario_client\<lparr>messages_list := (\<lambda>t k. Inr [])\<rparr>"

definition no_listing_client :: client where
  "no_listing_client = scenario_client\<lparr>messages_list := (\<lambda>t k. Inl (APIError ''timeout''))\<rparr>"

definition unknown_provider_config :: config where
  "unknown_provider_config =
     \<lparr>provider = ''anthropic'', model = ''m'', function_registry = Some Map.empty,
      api_key = ''key'', assistant_id = None\<rparr>"

text \<open>A service whose run is already \<^verbatim>\<open>completed\<close> when it is created.\<close>

definition done_client :: client where
  "done_client = scenario_client\<lparr>runs_create := (\<lambda>t a. Inr (run_with_status ''completed''))\<rparr>"

text \<open>
  Two classes supplied by a caller: one that can be instantiated, and an abstract one.
\<close>

definition mine_class :: impl_class where
  "mine_class = CustomImpl ''Mine'' None"


section \<open>Listing messages: properties\<close>

lemma next_assistant_None: "next_assistant msgs = None \<longleftrightarrow> (\<forall>m \<in> set msgs. role m \<noteq> ''assistant'')"
  by (induction msgs) auto

lemma next_assistant_Some:
  "next_assistant msgs = Some m \<longleftrightarrow>
     (\<exists>pre post. msgs = pre @ m # post \<and> role m = ''assistant'' \<and>
        (\<forall>x \<in> set pre. role x \<noteq> ''assistant''))"
proof (induction msgs)
  case Nil
  then show ?case by simp
next
  case (Cons a msgs)
  show ?case
  proof (cases "role a = ''assistant''")
    case True
    have "(\<exists>pre post. a # msgs = pre @ m # post \<and> role m = ''assistant'' \<and>
        (\<forall>x \<in> set pre. role x \<noteq> ''assistant'')) \<longleftrightarrow> a = m"
    proof
      assume "\<exists>pre post. a # msgs = pre @ m # post \<and> role m = ''assistant'' \<and>
        (\<forall>x \<in> set pre. role x \<noteq> ''assistant'')"
      then obtain pre post where h: "a # msgs = pre @ m # post"
        "\<forall>x \<in> set pre. role x \<noteq> ''assistant''" by blast
      show "a = m"
      proof (cases pre)
        case Nil
        with h show ?thesis by simp
      next
        case (Cons p ps)
        with h True show ?thesis by auto
      qed
    next
      assume "a = m"
      with True have "a # msgs = [] @ m # msgs \<and> role m = ''assistant'' \<and>
        (\<forall>x \<in> set []. role x \<noteq> ''assistant'')" by simp
      then show "\<exists>pre post. a # msgs = pre @ m # post \<and> role m = ''assistant'' \<and>
        (\<forall>x \<in> set pre. role x \<noteq> ''assistant'')" by blast
    qed
    with True show ?thesis by simp
  next
    case False
    have "(\<exists>pre post. a # msgs = pre @ m # post \<and> role m = ''assistant'' \<and>
        (\<forall>x \<in> set pre. role x \<noteq> ''assistant'')) \<longleftrightarrow>
      (\<exists>pre post. msgs = pre @ m # post \<and> role m = ''assistant'' \<and>
        (\<forall>x \<in> set pre. role x \<noteq> ''assistant''))" (is "?L \<longleftrightarrow> ?R")
    proof
      assume ?L
      then obtain pre post where h: "a # msgs = pre @ m # post" "role m = ''assistant''"
        "\<forall>x \<in> set pre. role x \<noteq> ''assistant''" by blast
      show ?R
      proof (cases pre)
        case Nil
        with h False show ?thesis by simp
      next
        case (Cons p ps)
        with h have "msgs = ps @ m # post \<and> role m = ''assistant'' \<and>
          (\<forall>x \<in> set ps. role x \<noteq> ''assistant'')" by simp
        then show ?thesis by blast
      qed
    next
      assume ?R
      then obtain pre post where h: "msgs = pre @ m # post" "role m = ''assistant''"
        "\<forall>x \<in> set pre. role x \<noteq> ''assistant''" by blast
      with False have "a # msgs = (a # pre) @ m # post \<and> role m = ''assistant'' \<and>
          (\<forall>x \<in> set (a # pre). role x \<noteq> ''assistant'')" by simp
      then show ?L by blast
    qed
    with False Cons.IH show ?thesis by simp
  qed
qed

text \<open>
  C6. \<^verbatim>\<open>_try_get_latest_assistant_message\<close> returns a message \<open>m\<close> exactly when \<open>m\<close>
  has the role \<^verbatim>\<open>"assistant"\<close> and no message before it in the listed order has; when no
  listed message has that role, and in particular when the list is empty, it raises the
  exception "No assistant message found".
\<close>

theorem try_get_latest_assistant_message_first_assistant:
  "(try_get_latest_assistant_message (Inr msgs) = Inr m \<longleftrightarrow>
      (\<exists>pre post. msgs = pre @ m # post \<and> role m = ''assistant'' \<and>
         (\<forall>x \<in> set pre. role x \<noteq> ''assistant''))) \<and>
   ((\<forall>x \<in> set msgs. role x \<noteq> ''assistant'') \<longrightarrow>
      try_get_latest_assistant_message (Inr msgs) = Inl NoAssistantMessage) \<and>
   try_get_latest_assistant_message (Inr []) = Inl NoAssistantMessage"
proof (intro conjI impI)
  show "try_get_latest_assistant_message (Inr msgs) = Inr m \<longleftrightarrow>
      (\<exists>pre post. msgs = pre @ m # post \<and> role m = ''assistant'' \<and>
         (\<forall>x \<in> set pre. role x \<noteq> ''assistant''))"
  proof (cases msgs)
    case Nil
    then show ?thesis by (simp add: try_get_latest_assistant_message_def)
  next
    case (Cons a as)
    have "try_get_latest_assistant_message (Inr msgs) = Inr m \<longleftrightarrow> next_assistant msgs = Some m"
      using Cons by (simp add: try_get_latest_assistant_message_def split: option.splits)
    then show ?thesis by (simp only: next_assistant_Some)
  qed
next
  assume "\<forall>x \<in> set msgs. role x \<noteq> ''assistant''"
  then have "next_assistant msgs = None" by (simp add: next_assistant_None)
  then show "try_get_latest_assistant_message (Inr msgs) = Inl NoAssistantMessage"
    by (simp add: try_get_latest_assistant_message_def)
next
  show "try_get_latest_assistant_message (Inr []) = Inl NoAssistantMessage"
    by (simp add: try_get_latest_assistant_message_def)
qed

text \<open>
  With a user message first and two assistant messages after it, the first of the two is
  returned; with a user message alone, the exception is raised.
\<close>

theorem try_get_latest_assistant_message_witness:
  "try_get_latest_assistant_message
      (Inr [user_message, assistant_message, \<lparr>role = ''assistant'', content = ''older''\<rparr>]) =
     Inr assistant_message \<and>
   try_get_latest_assistant_message (Inr [user_message]) = Inl NoAssistantMessage"
proof -
  let ?msgs = "[user_message, assistant_message, \<lparr>role = ''assistant'', content = ''older''\<rparr>]"
  have "?msgs = [user_message] @ assistant_message # [\<lparr>role = ''assistant'', content = ''older''\<rparr>] \<and>
        role assistant_message = ''assistant'' \<and>
        (\<forall>x \<in> set [user_message]. role x \<noteq> ''assistant'')"
    by (simp add: user_message_def assistant_message_def)
  then have ex: "\<exists>pre post. ?msgs = pre @ assistant_message # post \<and>
        role assistant_message = ''assistant'' \<and> (\<forall>x \<in> set pre. role x \<noteq> ''assistant'')"
    by blast
  have no: "\<forall>x \<in> set [user_message]. role x \<noteq> ''assistant''"
    by (simp add: user_message_def)
  from ex try_get_latest_assistant_message_first_assistant
         [where msgs = ?msgs and m = assistant_message]
  have "try_get_latest_assistant_message (Inr ?msgs) = Inr assistant_message" by blast
  moreover from no try_get_latest_assistant_message_first_assistant
         [where msgs = "[user_message]"]
  have "try_get_latest_assistant_message (Inr [user_message]) = Inl NoAssistantMessage" by blast
  ultimately show ?thesis by simp
qed

text \<open>
  C9. When the listing call succeeds with zero messages, \<^verbatim>\<open>get_thread_messages\<close> returns
  \<^verbatim>\<open>None\<close>, the value it also returns when the listing call raises: the caller cannot
  tell the two cases apart.
\<close>

theorem get_thread_messages_empty_is_failure:
  assumes "messages_list (self_client self) thread_id k = Inr []"
    and "messages_list (self_client self') thread_id k = Inl e"
  shows "get_thread_messages self thread_id k = None \<and>
         get_thread_messages self' thread_id k = None \<and>
         get_thread_messages self thread_id k = get_thread_messages self' thread_id k"
  using assms by (simp add: get_thread_messages_def)

text \<open>An empty thread against a service whose listing times out.\<close>

theorem get_thread_messages_empty_is_failure_witness:
  "get_thread_messages (impl_of empty_thread_client) ''thread_1'' 0 = None \<and>
   get_thread_messages (impl_of no_listing_client) ''thread_1'' 0 = None \<and>
   get_thread_messages (impl_of empty_thread_client) ''thread_1'' 0 =
     get_thread_messages (impl_of no_listing_client) ''thread_1'' 0"
proof -
  have 1: "messages_list (self_client (impl_of empty_thread_client)) ''thread_1'' 0 = Inr []"
    by (simp add: impl_of_def empty_thread_client_def scenario_client_def)
  have 2: "messages_list (self_client (impl_of no_listing_client)) ''thread_1'' 0 =
             Inl (APIError ''timeout'')"
    by (simp add: impl_of_def no_listing_client_def scenario_client_def)
  from get_thread_messages_empty_is_failure[OF 1 2] show ?thesis .
qed

section \<open>The retry manager: properties\<close>

text \<open>
  X1. The body of the \<^verbatim>\<open>async with\<close> statement runs once, whatever the bound: when
  the bound is at least 1 there is one listing call, otherwise none.
\<close>

lemma get_assistant_response_calls:
  "snd (get_assistant_response self thread_id max_retries) = (if 1 \<le> max_retries then 1 else 0)"
  by (auto simp: get_assistant_response_def async_with_retry_manager_def aenter_def
      retry_manager_start_def retry_manager_loop_def try_get_call_def aexit_normal_def
      retry_manager_resume_def aexit_exception_def retry_manager_athrow_def Let_def
      split: sum.splits prod.splits option.splits gen_step.splits)

text \<open>
  What leaves the statement when the body raises: with a bound of 1 the exception of the
  generator, which wraps the exception of the body; with a larger bound the generator
  yields a second time and the context manager raises its own error.
\<close>

lemma async_with_retry_manager_failure:
  assumes "body k = (Inl e, k')"
  shows "async_with_retry_manager max_retries body k =
     (if max_retries \<le> 0 then (Inl (RuntimeError ''generator didn't yield''), k)
      else if max_retries = 1 then (Inl (OperationFailed 1 e), k')
      else (Inl (RuntimeError ''generator didn't stop after athrow()''), k'))"
  using assms
  by (auto simp: async_with_retry_manager_def aenter_def
      retry_manager_start_def retry_manager_loop_def aexit_exception_def
      retry_manager_athrow_def Let_def)

lemma async_with_retry_manager_success:
  assumes "body k = (Inr v, k')" and "1 \<le> max_retries"
  shows "async_with_retry_manager max_retries body k = (Inr (Some v), k')"
  using assms
  by (auto simp: async_with_retry_manager_def aenter_def aexit_normal_def
      retry_manager_resume_def retry_manager_start_def retry_manager_loop_def)

text \<open>
  C1. The claim is that \<^verbatim>\<open>get_assistant_response\<close> with \<^verbatim>\<open>max_retries = N\<close> attempts the
  listing N times when every attempt fails, and then fails with an error that wraps the
  last one. The code makes one attempt: with \<^verbatim>\<open>max_retries = 3\<close> and a thread that never
  has an assistant message, there is one listing call, the statement is left with the
  context manager's \<^verbatim>\<open>RuntimeError\<close>, and \<^verbatim>\<open>None\<close> is returned; a thread whose third
  listing has an assistant message gives \<^verbatim>\<open>None\<close> after one call as well.
\<close>

theorem get_assistant_response_single_attempt:
  "get_assistant_response (impl_of scenario_client) ''thread_1'' 3 = (None, 1) \<and>
   async_with_retry_manager 3 (try_get_call (impl_of scenario_client) ''thread_1'') 0 =
     (Inl (RuntimeError ''generator didn't stop after athrow()''), 1) \<and>
   get_assistant_response (impl_of late_answer_client) ''thread_1'' 3 = (None, 1)"
  by (simp add: get_assistant_response_def async_with_retry_manager_def aenter_def
      retry_manager_start_def retry_manager_loop_def try_get_call_def aexit_normal_def
      retry_manager_resume_def aexit_exception_def retry_manager_athrow_def Let_def
      impl_of_def scenario_client_def late_answer_client_def user_message_def
      try_get_latest_assistant_message_def)

section \<open>Tool calls: properties\<close>

lemma tool_outputs_loop_eq:
  "tool_outputs_loop self thread tool_calls acc =
     acc @ map (\<lambda>tc. \<lparr>tool_call_id = tc_id tc, output_str = ''None''\<rparr>) tool_calls"
  by (induction tool_calls arbitrary: acc) (simp_all add: execute_function_call_def)

text \<open>
  C2. For a batch of K tool calls, the loop of \<^verbatim>\<open>submit_tool_outputs\<close> builds K entries,
  the i-th carrying the id of the i-th tool call; with a thread object, the one batch
  handed to the service is that whole list, and it is the argument of the service call.
  (With a string in place of the thread the list is built and nothing is handed over.)
\<close>

theorem submit_tool_outputs_one_output_per_call:
  "length (tool_outputs_loop self thread tool_calls []) = length tool_calls \<and>
   map tool_call_id (tool_outputs_loop self thread tool_calls []) = map tc_id tool_calls \<and>
   snd (submit_tool_outputs self run (ThreadObj t) tool_calls) =
     [tool_outputs_loop self (ThreadObj t) tool_calls []] \<and>
   fst (submit_tool_outputs self run (ThreadObj t) tool_calls) =
     runs_submit_tool_outputs (self_client self) (thread_ident t) (run_id run)
       (tool_outputs_loop self (ThreadObj t) tool_calls []) \<and>
   snd (submit_tool_outputs self run (StrObj s) tool_calls) = []"
  by (simp add: tool_outputs_loop_eq submit_tool_outputs_def comp_def Let_def)

text \<open>
  X2. Every entry that the loop builds carries the text \<^verbatim>\<open>None\<close>, whatever the
  function name and the arguments of its tool call.
\<close>

theorem tool_outputs_text_is_None:
  "map output_str (tool_outputs_loop self thread tool_calls []) =
     replicate (length tool_calls) ''None''"
  by (simp add: tool_outputs_loop_eq comp_def map_replicate_const)

text \<open>
  C3. The claim is that dispatching a function name that is not in the registry returns
  an error text. \<^verbatim>\<open>execute_function_call\<close> returns \<^verbatim>\<open>None\<close> for \<^verbatim>\<open>"missing_fn"\<close> with an
  empty registry, and for no input does it return a string; it does not raise.
\<close>

theorem execute_function_call_returns_None:
  "execute_function_call
     (OpenAIAssistantImpl_init create_client (cfg\<lparr>function_registry := Some Map.empty\<rparr>))
     thread ''missing_fn'' ''{}'' = PyNone \<and>
   (\<forall>s. execute_function_call self thread fname args \<noteq> PyStr s)"
  by (simp add: execute_function_call_def)

section \<open>Polling a run: properties\<close>

text \<open>One round of the loop, by what the fetch answers.\<close>

lemma poll_completed:
  "status run = ''completed'' \<Longrightarrow> poll self thread_id k sent run = Some (Some run, sent)"
  by (subst poll.simps) simp

lemma poll_fetch_raises:
  assumes "status run \<noteq> ''completed''"
    and "runs_retrieve (self_client self) k = Inl e"
  shows "poll self thread_id k sent run = Some (None, sent)"
  using assms by (subst poll.simps) simp

lemma poll_step:
  assumes "status run \<noteq> ''completed''"
    and "runs_retrieve (self_client self) k = Inr r"
    and "status r \<noteq> ''requires_action''"
  shows "poll self thread_id k sent run = poll self thread_id (Suc k) sent r"
  using assms by (subst poll.simps) simp

text \<open>
  \<^verbatim>\<open>start_run\<close> passes the thread id, a string, where \<^verbatim>\<open>submit_tool_outputs\<close> reads
  \<^verbatim>\<open>thread.id\<close>: a fetched \<^verbatim>\<open>requires_action\<close> ends the loop in the exception handler,
  with nothing handed to the service.
\<close>

lemma poll_requires_action:
  assumes "status run \<noteq> ''completed''"
    and "runs_retrieve (self_client self) k = Inr r"
    and "status r = ''requires_action''"
  shows "poll self thread_id k sent run = Some (None, sent)"
  using assms
  by (subst poll.simps)
     (simp add: submit_tool_outputs_def pending_tool_calls_def split: option.splits)

text \<open>
  If the loop returns while every fetch succeeds with a status other than
  \<^verbatim>\<open>completed\<close> and \<^verbatim>\<open>requires_action\<close>, it was entered with a completed run.
\<close>

lemma poll_returns_completed:
  assumes ret: "poll self thread_id k sent run = Some y"
    and env: "\<forall>j. \<exists>r. runs_retrieve (self_client self) j = Inr r \<and>
               status r \<noteq> ''completed'' \<and> status r \<noteq> ''requires_action''"
  shows "status run = ''completed''"
proof -
  let ?env = "\<lambda>s. \<forall>j. \<exists>r. runs_retrieve (self_client s) j = Inr r \<and>
               status r \<noteq> ''completed'' \<and> status r \<noteq> ''requires_action''"
  have "?env self \<longrightarrow> status run = ''completed''"
  proof (rule poll.raw_induct
      [where P = "\<lambda>s t k snt rn y. ?env s \<longrightarrow> status rn = ''completed''", OF _ ret])
    fix poll' s t j snt and rn :: run and z :: "run option \<times> tool_output list list"
    assume ih: "\<And>s t j snt rn z. poll' s t j snt rn = Some z \<Longrightarrow>
        ?env s \<longrightarrow> status rn = ''completed''"
      and body: "(if status rn = ''completed'' then Some (Some rn, snt)
         else
           (case runs_retrieve (self_client s) j of
              Inl e \<Rightarrow> Some (None, snt)
            | Inr run' \<Rightarrow>
                (if status run' = ''requires_action'' then
                   (case pending_tool_calls run' of
                      Inl e \<Rightarrow> Some (None, snt)
                    | Inr tool_calls \<Rightarrow>
                        (case submit_tool_outputs s run' (StrObj t) tool_calls of
                           (Inl e, batches) \<Rightarrow> Some (None, snt @ batches)
                         | (Inr submitted, batches) \<Rightarrow>
                             poll' s t (Suc j) (snt @ batches) run'))
                 else poll' s t (Suc j) snt run'))) = Some z"
    show "?env s \<longrightarrow> status rn = ''completed''"
    proof (intro impI, rule ccontr)
      assume ns: "?env s" and nc: "status rn \<noteq> ''completed''"
      from ns obtain r where r: "runs_retrieve (self_client s) j = Inr r"
        "status r \<noteq> ''completed''" "status r \<noteq> ''requires_action''"
        by blast
      from body nc r have "poll' s t (Suc j) snt r = Some z" by simp
      from ih[OF this] ns r show False by simp
    qed
  qed
  with env show ?thesis by simp
qed

text \<open>A run that the loop returns is a completed one.\<close>

lemma poll_returns_run_completed:
  assumes ret: "poll self thread_id k sent run = Some (Some r, sent')"
  shows "status r = ''completed''"
proof -
  have "\<forall>r' s'. (Some r, sent') = (Some r', s') \<longrightarrow> status r' = ''completed''"
  proof (rule poll.raw_induct
      [where P = "\<lambda>s t k snt rn y. \<forall>r' s'. y = (Some r', s') \<longrightarrow> status r' = ''completed''",
       OF _ ret])
    fix poll' s t j snt and rn :: run and z :: "run option \<times> tool_output list list"
    assume ih: "\<And>s t j snt rn z. poll' s t j snt rn = Some z \<Longrightarrow>
        \<forall>r' s'. z = (Some r', s') \<longrightarrow> status r' = ''completed''"
      and body: "(if status rn = ''completed'' then Some (Some rn, snt)
         else
           (case runs_retrieve (self_client s) j of
              Inl e \<Rightarrow> Some (None, snt)
            | Inr run' \<Rightarrow>
                (if status run' = ''requires_action'' then
                   (case pending_tool_calls run' of
                      Inl e \<Rightarrow> Some (None, snt)
                    | Inr tool_calls \<Rightarrow>
                        (case submit_tool_outputs s run' (StrObj t) tool_calls of
                           (Inl e, batches) \<Rightarrow> Some (None, snt @ batches)
                         | (Inr submitted, batches) \<Rightarrow>
                             poll' s t (Suc j) (snt @ batches) run'))
                 else poll' s t (Suc j) snt run'))) = Some z"
    show "\<forall>r' s'. z = (Some r', s') \<longrightarrow> status r' = ''completed''"
      using body ih
      by (auto split: if_splits sum.splits prod.splits)
  qed
  then show ?thesis by simp
qed

text \<open>
  C4. The claim is that, for the fetched statuses \<^verbatim>\<open>queued\<close>, \<^verbatim>\<open>in_progress\<close>,
  \<^verbatim>\<open>requires_action\<close> (one tool call pending), \<^verbatim>\<open>in_progress\<close>, \<^verbatim>\<open>completed\<close>,
  \<^verbatim>\<open>start_run\<close> submits one batch of one output and returns the completed run. On that
  sequence the code returns \<^verbatim>\<open>None\<close> at the second fetch, and no batch has been handed
  to the service.
\<close>

theorem start_run_scenario_returns_None:
  "start_run (impl_of scenario_client) ''thread_1'' ''asst_1'' = Some (None, [])"
proof -
  let ?self = "impl_of scenario_client"
  have "poll ?self ''thread_1'' 0 [] (run_with_status ''queued'') =
        poll ?self ''thread_1'' (Suc 0) [] (run_with_status ''in_progress'')"
    by (rule poll_step) (simp_all add: impl_of_def scenario_client_def run_with_status_def)
  also have "\<dots> = Some (None, [])"
    by (rule poll_requires_action[where r = run_requiring_action])
       (simp_all add: impl_of_def scenario_client_def run_with_status_def run_requiring_action_def)
  finally show ?thesis
    by (simp add: start_run_def impl_of_def scenario_client_def)
qed

text \<open>The loop ends in the exception handler at the first fetch that raises.\<close>

lemma poll_fetch_raises_later:
  assumes "status run \<noteq> ''completed''"
    and "\<forall>j<n. \<exists>r. runs_retrieve (self_client self) (k + j) = Inr r \<and>
               status r \<noteq> ''completed'' \<and> status r \<noteq> ''requires_action''"
    and "runs_retrieve (self_client self) (k + n) = Inl e"
  shows "poll self thread_id k sent run = Some (None, sent)"
  using assms
proof (induction n arbitrary: k run)
  case 0
  then show ?case by (simp add: poll_fetch_raises)
next
  case (Suc n)
  from Suc.prems(2) have "\<exists>r. runs_retrieve (self_client self) (k + 0) = Inr r \<and>
               status r \<noteq> ''completed'' \<and> status r \<noteq> ''requires_action''"
    by blast
  then obtain r where r: "runs_retrieve (self_client self) k = Inr r"
    "status r \<noteq> ''completed''" "status r \<noteq> ''requires_action''"
    by auto
  have later: "\<forall>j<n. \<exists>r. runs_retrieve (self_client self) (Suc k + j) = Inr r \<and>
               status r \<noteq> ''completed'' \<and> status r \<noteq> ''requires_action''"
  proof (intro allI impI)
    fix j assume "j < n"
    then have "Suc j < Suc n" by simp
    with Suc.prems(2) have "\<exists>r. runs_retrieve (self_client self) (k + Suc j) = Inr r \<and>
               status r \<noteq> ''completed'' \<and> status r \<noteq> ''requires_action''"
      by blast
    then show "\<exists>r. runs_retrieve (self_client self) (Suc k + j) = Inr r \<and>
               status r \<noteq> ''completed'' \<and> status r \<noteq> ''requires_action''"
      by simp
  qed
  from Suc.prems(3) have raises: "runs_retrieve (self_client self) (Suc k + n) = Inl e"
    by simp
  have "poll self thread_id k sent run = poll self thread_id (Suc k) sent r"
    using Suc.prems(1) r(1) r(3) by (rule poll_step)
  also have "\<dots> = Some (None, sent)"
    using r(2) later raises by (rule Suc.IH)
  finally show ?case .
qed

text \<open>A run that is created \<^verbatim>\<open>queued\<close> and is \<^verbatim>\<open>failed\<close> at every fetch is polled forever.\<close>

lemma start_run_failed_client:
  "start_run (impl_of failed_client) ''thread_1'' ''asst_1'' = None"
proof (cases "poll (impl_of failed_client) ''thread_1'' 0 [] (run_with_status ''queued'')")
  case None
  then show ?thesis
    by (simp add: start_run_def impl_of_def failed_client_def scenario_client_def)
next
  case (Some y)
  have "\<forall>j. \<exists>r. runs_retrieve (self_client (impl_of failed_client)) j = Inr r \<and>
               status r \<noteq> ''completed'' \<and> status r \<noteq> ''requires_action''"
    by (simp add: impl_of_def failed_client_def scenario_client_def run_with_status_def)
  from poll_returns_completed[OF Some this] show ?thesis
    by (simp add: run_with_status_def)
qed

text \<open>
  C5, as amended. When the run is created with a status other than \<^verbatim>\<open>completed\<close> and
  every fetch succeeds with a status that is neither \<^verbatim>\<open>completed\<close> nor
  \<^verbatim>\<open>requires_action\<close> (a run that stays in \<^verbatim>\<open>failed\<close> or \<^verbatim>\<open>expired\<close>, say),
  \<^verbatim>\<open>start_run\<close> never returns: no number of polls ends the loop. Whenever
  \<^verbatim>\<open>start_run\<close> returns a run, that run is completed. A service call that raises ends
  the loop, and \<^verbatim>\<open>start_run\<close> returns \<^verbatim>\<open>None\<close>: when the creation of the run raises,
  and when a fetch raises after any number of fetches that succeeded with statuses other
  than \<^verbatim>\<open>completed\<close> and \<^verbatim>\<open>requires_action\<close>; nothing has been handed to the service
  then.
\<close>

theorem start_run_never_returns:
  assumes created: "runs_create (self_client self) thread_id assistant = Inr run0"
    and queued: "status run0 \<noteq> ''completed''"
    and fetched: "\<forall>j. \<exists>r. runs_retrieve (self_client self) j = Inr r \<and>
               status r \<noteq> ''completed'' \<and> status r \<noteq> ''requires_action''"
  shows "start_run self thread_id assistant = None \<and>
         (\<forall>self' r sent. start_run self' thread_id assistant = Some (Some r, sent) \<longrightarrow>
            status r = ''completed'') \<and>
         (\<forall>self' e. runs_create (self_client self') thread_id assistant = Inl e \<longrightarrow>
            start_run self' thread_id assistant = Some (None, [])) \<and>
         (\<forall>self' run1 n e.
            runs_create (self_client self') thread_id assistant = Inr run1 \<and>
            status run1 \<noteq> ''completed'' \<and>
            (\<forall>j<n. \<exists>r. runs_retrieve (self_client self') j = Inr r \<and>
               status r \<noteq> ''completed'' \<and> status r \<noteq> ''requires_action'') \<and>
            runs_retrieve (self_client self') n = Inl e \<longrightarrow>
            start_run self' thread_id assistant = Some (None, []))"
proof (intro conjI)
  show "start_run self thread_id assistant = None"
  proof (cases "poll self thread_id 0 [] run0")
    case None
    with created show ?thesis by (simp add: start_run_def)
  next
    case (Some y)
    from poll_returns_completed[OF Some fetched] queued show ?thesis by simp
  qed
next
  show "\<forall>self' r sent. start_run self' thread_id assistant = Some (Some r, sent) \<longrightarrow>
          status r = ''completed''"
    by (auto simp: start_run_def split: sum.splits dest: poll_returns_run_completed)
next
  show "\<forall>self' e. runs_create (self_client self') thread_id assistant = Inl e \<longrightarrow>
          start_run self' thread_id assistant = Some (None, [])"
    by (simp add: start_run_def)
next
  show "\<forall>self' run1 n e.
            runs_create (self_client self') thread_id assistant = Inr run1 \<and>
            status run1 \<noteq> ''completed'' \<and>
            (\<forall>j<n. \<exists>r. runs_retrieve (self_client self') j = Inr r \<and>
               status r \<noteq> ''completed'' \<and> status r \<noteq> ''requires_action'') \<and>
            runs_retrieve (self_client self') n = Inl e \<longrightarrow>
            start_run self' thread_id assistant = Some (None, [])"
  proof (intro allI impI, elim conjE)
    fix self' :: OpenAIAssistantImpl and run1 :: run and n :: nat and e :: exn
    assume c: "runs_create (self_client self') thread_id assistant = Inr run1"
      and q: "status run1 \<noteq> ''completed''"
      and good: "\<forall>j<n. \<exists>r. runs_retrieve (self_client self') j = Inr r \<and>
               status r \<noteq> ''completed'' \<and> status r \<noteq> ''requires_action''"
      and bad: "runs_retrieve (self_client self') n = Inl e"
    have "poll self' thread_id 0 [] run1 = Some (None, [])"
      by (rule poll_fetch_raises_later[where n = n and e = e]) (use q good bad in simp_all)
    with c show "start_run self' thread_id assistant = Some (None, [])"
      by (simp add: start_run_def)
  qed
qed

text \<open>
  A run that is created \<^verbatim>\<open>queued\<close> and is \<^verbatim>\<open>failed\<close> at every fetch; a service that
  cannot create a run; a service whose third fetch raises.
\<close>

theorem start_run_never_returns_witness:
  "start_run (impl_of failed_client) ''thread_1'' ''asst_1'' = None \<and>
   start_run (impl_of no_run_client) ''thread_1'' ''asst_1'' = Some (None, []) \<and>
   start_run (impl_of dropping_client) ''thread_1'' ''asst_1'' = Some (None, [])"
proof -
  have 1: "runs_create (self_client (impl_of failed_client)) ''thread_1'' ''asst_1'' =
        Inr (run_with_status ''queued'')"
    by (simp add: impl_of_def failed_client_def scenario_client_def)
  have 2: "status (run_with_status ''queued'') \<noteq> ''completed''"
    by (simp add: run_with_status_def)
  have 3: "\<forall>j. \<exists>r. runs_retrieve (self_client (impl_of failed_client)) j = Inr r \<and>
               status r \<noteq> ''completed'' \<and> status r \<noteq> ''requires_action''"
    by (simp add: impl_of_def failed_client_def scenario_client_def run_with_status_def)
  note all = start_run_never_returns[OF 1 2 3]
  have 4: "runs_create (self_client (impl_of no_run_client)) ''thread_1'' ''asst_1'' =
        Inl (APIError ''no such assistant'')"
    by (simp add: impl_of_def no_run_client_def scenario_client_def)
  have 5: "runs_create (self_client (impl_of dropping_client)) ''thread_1'' ''asst_1'' =
        Inr (run_with_status ''queued'')"
    by (simp add: impl_of_def dropping_client_def scenario_client_def)
  have 6: "\<forall>j<2. \<exists>r. runs_retrieve (self_client (impl_of dropping_client)) j = Inr r \<and>
               status r \<noteq> ''completed'' \<and> status r \<noteq> ''requires_action''"
    by (simp add: impl_of_def dropping_client_def scenario_client_def run_with_status_def)
  have 7: "runs_retrieve (self_client (impl_of dropping_client)) 2 =
        Inl (APIError ''connection reset'')"
    by (simp add: impl_of_def dropping_client_def scenario_client_def)
  from all have a: "start_run (impl_of failed_client) ''thread_1'' ''asst_1'' = None"
    by blast
  from all 4 have b: "start_run (impl_of no_run_client) ''thread_1'' ''asst_1'' = Some (None, [])"
    by blast
  from all have "runs_create (self_client (impl_of dropping_client)) ''thread_1'' ''asst_1'' =
            Inr (run_with_status ''queued'') \<and>
          status (run_with_status ''queued'') \<noteq> ''completed'' \<and>
          (\<forall>j<2. \<exists>r. runs_retrieve (self_client (impl_of dropping_client)) j = Inr r \<and>
               status r \<noteq> ''completed'' \<and> status r \<noteq> ''requires_action'') \<and>
          runs_retrieve (self_client (impl_of dropping_client)) 2 =
            Inl (APIError ''connection reset'') \<longrightarrow>
          start_run (impl_of dropping_client) ''thread_1'' ''asst_1'' = Some (None, [])"
    by blast
  with 5 2 6 7 have c: "start_run (impl_of dropping_client) ''thread_1'' ''asst_1'' = Some (None, [])"
    by blast
  from a b c show ?thesis by simp
qed

text \<open>
  C5 as stated fails: \<^verbatim>\<open>start_run\<close> returns, with \<^verbatim>\<open>None\<close>, for a run that is
  \<^verbatim>\<open>requires_action\<close> at every fetch, and for a service whose fetch raises; in neither
  is the status \<^verbatim>\<open>completed\<close> ever seen.
\<close>

theorem start_run_returns_without_completed:
  "start_run (impl_of waiting_client) ''thread_1'' ''asst_1'' = Some (None, []) \<and>
   start_run (impl_of unreachable_client) ''thread_1'' ''asst_1'' = Some (None, [])"
proof -
  have "poll (impl_of waiting_client) ''thread_1'' 0 [] (run_with_status ''queued'') =
          Some (None, [])"
    by (rule poll_requires_action[where r = run_requiring_action])
       (simp_all add: impl_of_def waiting_client_def scenario_client_def run_with_status_def
          run_requiring_action_def)
  moreover
  have "poll (impl_of unreachable_client) ''thread_1'' 0 [] (run_with_status ''queued'') =
          Some (None, [])"
    by (rule poll_fetch_raises[where e = "APIError ''connection reset''"])
       (simp_all add: impl_of_def unreachable_client_def scenario_client_def run_with_status_def)
  ultimately show ?thesis
    by (simp add: start_run_def impl_of_def waiting_client_def unreachable_client_def
        scenario_client_def)
qed

text \<open>
  \<^verbatim>\<open>create_message\<close> returns when, and only when, \<^verbatim>\<open>start_run\<close> does: a run that is
  polled forever keeps \<^verbatim>\<open>create_message\<close> from returning.
\<close>

lemma create_message_waits_for_start_run:
  assumes "messages_create (self_client self) thread_id ''user'' text = Inr m"
  shows "create_message self thread_id assistant text =
           map_option (\<lambda>outcome. Some m) (start_run self thread_id assistant)"
  using assms by (simp add: create_message_def split: option.splits)

text \<open>
  C10, as amended. When the user message is created, \<^verbatim>\<open>create_message\<close> returns exactly
  when the \<^verbatim>\<open>start_run\<close> it awaits returns, and then it returns the created message
  whatever \<^verbatim>\<open>start_run\<close> returned (\<^verbatim>\<open>None\<close> or a run): the outcome does not appear in
  the result. When \<^verbatim>\<open>start_run\<close> never returns, neither does \<^verbatim>\<open>create_message\<close>.
\<close>

theorem create_message_returns_with_start_run:
  assumes "messages_create (self_client self) thread_id ''user'' text = Inr m"
  shows "(\<forall>outcome. start_run self thread_id assistant = Some outcome \<longrightarrow>
            create_message self thread_id assistant text = Some (Some m)) \<and>
         (start_run self thread_id assistant = None \<longrightarrow>
            create_message self thread_id assistant text = None)"
  using assms by (simp add: create_message_def)

text \<open>
  The same message comes back when the run could not be created (\<^verbatim>\<open>start_run\<close> returns
  \<^verbatim>\<open>None\<close>) and when the run completed; nothing comes back for a run that stays
  \<^verbatim>\<open>failed\<close>.
\<close>

theorem create_message_returns_with_start_run_witness:
  "start_run (impl_of no_run_client) ''thread_1'' ''asst_1'' = Some (None, []) \<and>
   create_message (impl_of no_run_client) ''thread_1'' ''asst_1'' ''hello'' =
     Some (Some user_message) \<and>
   start_run (impl_of done_client) ''thread_1'' ''asst_1'' =
     Some (Some (run_with_status ''completed''), []) \<and>
   create_message (impl_of done_client) ''thread_1'' ''asst_1'' ''hello'' =
     Some (Some user_message) \<and>
   start_run (impl_of failed_client) ''thread_1'' ''asst_1'' = None \<and>
   create_message (impl_of failed_client) ''thread_1'' ''asst_1'' ''hello'' = None"
proof -
  have m1: "messages_create (self_client (impl_of no_run_client)) ''thread_1'' ''user'' ''hello'' =
          Inr user_message"
    by (simp add: impl_of_def no_run_client_def scenario_client_def user_message_def)
  have s1: "start_run (impl_of no_run_client) ''thread_1'' ''asst_1'' = Some (None, [])"
    by (simp add: start_run_def impl_of_def no_run_client_def scenario_client_def)
  have m2: "messages_create (self_client (impl_of done_client)) ''thread_1'' ''user'' ''hello'' =
          Inr user_message"
    by (simp add: impl_of_def done_client_def scenario_client_def user_message_def)
  have "poll (impl_of done_client) ''thread_1'' 0 [] (run_with_status ''completed'') =
          Some (Some (run_with_status ''completed''), [])"
    by (rule poll_completed) (simp add: run_with_status_def)
  then have s2: "start_run (impl_of done_client) ''thread_1'' ''asst_1'' =
          Some (Some (run_with_status ''completed''), [])"
    by (simp add: start_run_def impl_of_def done_client_def scenario_client_def)
  have m3: "messages_create (self_client (impl_of failed_client)) ''thread_1'' ''user'' ''hello'' =
          Inr user_message"
    by (simp add: impl_of_def failed_client_def scenario_client_def user_message_def)
  note s3 = start_run_failed_client
  from create_message_returns_with_start_run[OF m1, of "''asst_1''"] s1
  have c1: "create_message (impl_of no_run_client) ''thread_1'' ''asst_1'' ''hello'' =
          Some (Some user_message)" by blast
  from create_message_returns_with_start_run[OF m2, of "''asst_1''"] s2
  have c2: "create_message (impl_of done_client) ''thread_1'' ''asst_1'' ''hello'' =
          Some (Some user_message)" by blast
  from create_message_returns_with_start_run[OF m3, of "''asst_1''"] s3
  have c3: "create_message (impl_of failed_client) ''thread_1'' ''asst_1'' ''hello'' = None"
    by blast
  from s1 c1 s2 c2 s3 c3 show ?thesis by simp
qed

text \<open>
  C10 as stated fails: the user message is created, the run stays \<^verbatim>\<open>failed\<close>, and
  \<^verbatim>\<open>create_message\<close> does not return the message, or anything.
\<close>

theorem create_message_does_not_return:
  "messages_create (self_client (impl_of failed_client)) ''thread_1'' ''user'' ''hello'' =
     Inr user_message \<and>
   create_message (impl_of failed_client) ''thread_1'' ''asst_1'' ''hello'' = None"
proof -
  have m: "messages_create (self_client (impl_of failed_client)) ''thread_1'' ''user'' ''hello'' =
          Inr user_message"
    by (simp add: impl_of_def failed_client_def scenario_client_def user_message_def)
  from create_message_waits_for_start_run[OF m, of "''asst_1''"] start_run_failed_client m
  show ?thesis by simp
qed

section \<open>The registries: properties\<close>

text \<open>
  C7, as amended. For a provider name that is not in the registry,
  \<^verbatim>\<open>get_assistant_processor\<close> raises \<^verbatim>\<open>KeyError\<close> with the message "... is not
  implemented.", and the construction of \<^verbatim>\<open>AssistantProcessor\<close> lets it through to the
  caller; the construction in test_lib.py raises the dictionary's \<^verbatim>\<open>KeyError\<close> when the
  name is in neither the registry nor the custom entries.
\<close>

theorem unknown_provider_raises_KeyError:
  "(provider cfg \<notin> dom (processor_implementations create_client) \<longrightarrow>
      get_assistant_processor create_client cfg =
        Inl (KeyError (''AssistanProcessor for Provider: '' @ provider cfg @ '' is not implemented.'')) \<and>
      AssistantProcessor_init create_client cfg =
        Inl (KeyError (''AssistanProcessor for Provider: '' @ provider cfg @ '' is not implemented.''))) \<and>
   ((registry ++ custom) prov = None \<longrightarrow>
      fst (TestProcessor_init registry prov mdl (Some custom)) = Inl (KeyError prov)) \<and>
   (registry prov = None \<longrightarrow>
      fst (TestProcessor_init registry prov mdl None) = Inl (KeyError prov))"
  by (auto simp: get_assistant_processor_def AssistantProcessor_init_def TestProcessor_init_def
      Let_def map_add_def split: option.splits)

text \<open>The provider \<^verbatim>\<open>"anthropic"\<close>, against both registries.\<close>

theorem unknown_provider_raises_KeyError_witness:
  "get_assistant_processor (\<lambda>key. scenario_client) unknown_provider_config =
     Inl (KeyError ''AssistanProcessor for Provider: anthropic is not implemented.'') \<and>
   AssistantProcessor_init (\<lambda>key. scenario_client) unknown_provider_config =
     Inl (KeyError ''AssistanProcessor for Provider: anthropic is not implemented.'') \<and>
   fst (TestProcessor_init assistant_processor_implementations ''anthropic'' ''m''
          (Some [''custom'' \<mapsto> mine_class])) = Inl (KeyError ''anthropic'') \<and>
   fst (TestProcessor_init assistant_processor_implementations ''anthropic'' ''m'' None) =
     Inl (KeyError ''anthropic'')"
proof -
  have 1: "provider unknown_provider_config \<notin>
             dom (processor_implementations (\<lambda>key. scenario_client))"
    by (simp add: unknown_provider_config_def processor_implementations_def OPENAI_def)
  have 2: "(assistant_processor_implementations ++ [''custom'' \<mapsto> mine_class])
             ''anthropic'' = None"
    by (simp add: assistant_processor_implementations_def)
  have 3: "assistant_processor_implementations ''anthropic'' = None"
    by (simp add: assistant_processor_implementations_def)
  have 4: "provider unknown_provider_config = ''anthropic''"
    by (simp add: unknown_provider_config_def)
  show ?thesis
    using 1 2 3 4
      unknown_provider_raises_KeyError
        [where cfg = unknown_provider_config and create_client = "\<lambda>key. scenario_client"
           and registry = assistant_processor_implementations
           and custom = "[''custom'' \<mapsto> mine_class]" and prov = "''anthropic''"
           and mdl = "''m''"]
    by simp
qed

text \<open>
  C7 as stated fails: the exception of an unknown provider reaches the caller of the
  constructor, in processor_2.py and in test_lib.py.
\<close>

theorem unknown_provider_reaches_caller:
  "AssistantProcessor_init (\<lambda>key. scenario_client) unknown_provider_config =
     Inl (KeyError ''AssistanProcessor for Provider: anthropic is not implemented.'') \<and>
   fst (TestProcessor_init assistant_processor_implementations ''anthropic'' ''m'' None) =
     Inl (KeyError ''anthropic'')"
  by (simp add: get_assistant_processor_def AssistantProcessor_init_def TestProcessor_init_def
      unknown_provider_config_def processor_implementations_def OPENAI_def
      assistant_processor_implementations_def)




end
